theory Spec2Isabelle
  imports Complex_Main
begin

section \<open>JavaScript values used by the planner\<close>

text \<open>
  The planner (\<^verbatim>\<open>script.js\<close>) computes with JavaScript numbers, which are IEEE 754 doubles.
  Targets, completed values and ratios are modelled as reals, and their arithmetic is
  exact, except in \<^verbatim>\<open>determineNextDifficulty\<close>: its result depends on how the sum and the
  quotient are rounded, so there each operation is rounded to a double (see below).
  \<^verbatim>\<open>NaN\<close> and \<^verbatim>\<open>undefined\<close> are modelled where the code reads values that can be either
  (the entries of \<^verbatim>\<open>completedArray\<close>). A \<^verbatim>\<open>TypeError\<close> raised by reading a property of
  \<^verbatim>\<open>undefined\<close> is the error value of a sum type.
\<close>

datatype jsval = Undefined | NaN | Num real

datatype error = TypeError

text \<open>\<^verbatim>\<open>Math.round\<close>: the nearest integer, a tie going towards plus infinity.\<close>

definition Math_round :: "real \<Rightarrow> real" where
  "Math_round x = of_int \<lfloor>x + 1 / 2\<rfloor>"

text \<open>\<^verbatim>\<open>a[idx]\<close> on an array: \<^verbatim>\<open>undefined\<close> past the end.\<close>

definition arrayGet :: "jsval list \<Rightarrow> nat \<Rightarrow> jsval" where
  "arrayGet a idx = (if idx < length a then a ! idx else Undefined)"

text \<open>
  \<^verbatim>\<open>Number(v || 0)\<close> for \<open>v\<close> a number, \<^verbatim>\<open>NaN\<close> or \<^verbatim>\<open>undefined\<close>: the falsy values
  (\<^verbatim>\<open>undefined\<close>, \<^verbatim>\<open>NaN\<close>, \<open>0\<close>) give \<open>0\<close>, any other number gives itself.
\<close>

definition numberOrZero :: "jsval \<Rightarrow> real" where
  "numberOrZero v = (case v of Undefined \<Rightarrow> 0 | NaN \<Rightarrow> 0 | Num x \<Rightarrow> (if x = 0 then 0 else x))"

subsection \<open>Double precision\<close>

text \<open>
  The result of an arithmetic operation on doubles is the exact result rounded to the
  nearest double, a tie going to the double whose last bit is even. \<open>roundToDouble\<close> is
  this rounding on the reals. For \<open>x\<close> with \<open>2 powi e \<le> \<bar>x\<bar>\<close> and \<open>\<bar>x\<bar> < 2 powi (e + 1)\<close> the
  doubles around \<open>x\<close> are the multiples of \<open>2 powi (e - 52)\<close>, and below \<open>2 powi (- 1022)\<close>
  those of \<open>2 powi (- 1074)\<close>; \<open>x\<close> goes to the nearest multiple. \<open>findExponent\<close> finds
  \<open>e\<close> by halving or doubling; 2200 steps are enough for every value between the smallest
  and the largest double. A result beyond the largest double, which the code would turn
  into \<^verbatim>\<open>Infinity\<close>, is not modelled. A numeric literal of the source that is not a
  double, such as \<^verbatim>\<open>0.8\<close>, denotes the double nearest to it.
\<close>

fun findExponent :: "nat \<Rightarrow> real \<Rightarrow> int \<Rightarrow> int" where
  "findExponent 0 x e = e"
| "findExponent (Suc fuel) x e =
     (if x < 1 then findExponent fuel (2 * x) (e - 1)
      else if 2 \<le> x then findExponent fuel (x / 2) (e + 1)
      else e)"

definition roundHalfEven :: "real \<Rightarrow> int" where
  "roundHalfEven m =
     (let n = \<lfloor>m\<rfloor>; f = m - of_int n
      in if f < 1 / 2 then n else if 1 / 2 < f then n + 1 else if even n then n else n + 1)"

definition roundToDouble :: "real \<Rightarrow> real" where
  "roundToDouble x =
     (if x = 0 then 0
      else
        let e = max (findExponent 2200 \<bar>x\<bar> 0) (- 1022);
            q = 2 powi (e - 52)
        in of_int (roundHalfEven (x / q)) * q)"

subsection \<open>Dates\<close>

text \<open>
  A \<^verbatim>\<open>Date\<close> object holds a time value: milliseconds since 1970-01-01T00:00:00Z. The
  plan stores dates as the strings \<^verbatim>\<open>YYYY-MM-DD\<close>; such a string is modelled by its day
  number, the count of days since 1970-01-01 (so 19723 is 2024-01-01).

  \<^item> \<^verbatim>\<open>new Date('YYYY-MM-DD')\<close> is midnight UTC of that day (\<open>Date_parse\<close>);
  \<^item> \<^verbatim>\<open>d.toISOString().substring(0, 10)\<close> is the UTC calendar day of the time value
    (\<open>toISODate\<close>);
  \<^item> \<^verbatim>\<open>d.setDate(d.getDate() + n)\<close> works on local time: it moves the local calendar
    date by \<open>n\<close> days, keeps the local time of day, and converts back (\<open>addDays\<close>).
  The host's time zone is a parameter: \<open>utcOffset tz t\<close> is local time minus UTC at the
  instant \<open>t\<close>, and \<open>localOffset tz l\<close> is the offset by which the local time value
  \<open>l\<close> is read back as an instant.
\<close>

type_synonym instant = int

type_synonym isodate = int

record timezone =
  utcOffset :: "instant \<Rightarrow> int"
  localOffset :: "int \<Rightarrow> int"

definition msPerDay :: int where
  "msPerDay = 86400000"

definition msPerHour :: int where
  "msPerHour = 3600000"

definition Date_parse :: "isodate \<Rightarrow> instant" where
  "Date_parse d = d * msPerDay"

definition toISODate :: "instant \<Rightarrow> isodate" where
  "toISODate t = t div msPerDay"

definition addDays :: "timezone \<Rightarrow> instant \<Rightarrow> int \<Rightarrow> instant" where
  "addDays tz t n =
     (let localTime = t + utcOffset tz t + n * msPerDay
      in localTime - localOffset tz localTime)"

text \<open>A zone whose offset never changes, such as UTC (\<open>fixedZone 0\<close>).\<close>

definition fixedZone :: "int \<Rightarrow> timezone" where
  "fixedZone c = \<lparr>utcOffset = (\<lambda>t. c), localOffset = (\<lambda>l. c)\<rparr>"

text \<open>
  Europe/Bucharest in 2024: UTC+2, and UTC+3 from 2024-03-31T01:00Z (day 19813) until
  2024-10-27T01:00Z (day 20023). A local time that the clock skips or shows twice is read
  with the offset in force before the change.
\<close>

definition dstStart2024 :: instant where
  "dstStart2024 = 19813 * msPerDay + msPerHour"

definition dstEnd2024 :: instant where
  "dstEnd2024 = 20023 * msPerDay + msPerHour"

definition bucharest2024 :: timezone where
  "bucharest2024 =
     \<lparr>utcOffset = (\<lambda>t. if dstStart2024 \<le> t \<and> t < dstEnd2024 then 3 * msPerHour else 2 * msPerHour),
      localOffset = (\<lambda>l. if dstStart2024 + 3 * msPerHour \<le> l \<and> l < dstEnd2024 + 3 * msPerHour
                         then 3 * msPerHour else 2 * msPerHour)\<rparr>"

section \<open>Data model\<close>

text \<open>
  The objects of the planner. A template of the catalog has no \<^verbatim>\<open>completed\<close> field; an
  exercise of a plan has one. A field that an object literal leaves out (\<^verbatim>\<open>equipment\<close> of
  the rest template and of a carry-over exercise) is \<open>None\<close>. The \<^verbatim>\<open>password\<close> of a user
  is not read by any function modelled here and is left out.
\<close>

record template =
  name :: string
  target :: real
  unit :: string
  description :: string
  equipment :: "string list option"

record exercise = template +
  completed :: real

record day =
  exercises :: "exercise list"
  feedback :: string
  completion :: real

record plan =
  startDate :: isodate
  days :: "day list"
  difficulty :: real
  endDate :: isodate

record prefs =
  prefDifficulty :: real
  prefEquipment :: "(string \<rightharpoonup> bool) option"

record user =
  plans :: "plan list"
  preferences :: "prefs option"

section \<open>The exercise catalog\<close>

text \<open>
  The Romanian letters of the catalog's texts are given by their UTF-8 bytes.
\<close>

definition a_breve :: string where
  "a_breve = [CHR 0xC4, CHR 0x83]"

definition a_circumflex :: string where
  "a_circumflex = [CHR 0xC3, CHR 0xA2]"

definition i_circumflex :: string where
  "i_circumflex = [CHR 0xC3, CHR 0xAE]"

definition I_circumflex :: string where
  "I_circumflex = [CHR 0xC3, CHR 0x8E]"

definition s_comma :: string where
  "s_comma = [CHR 0xC8, CHR 0x99]"

definition t_comma :: string where
  "t_comma = [CHR 0xC8, CHR 0x9B]"

text \<open>\<^verbatim>\<open>getDayTemplate(dayIndex)\<close>: a \<^verbatim>\<open>switch\<close> over 0 (Monday) to 6 (Sunday).\<close>

definition getDayTemplate :: "nat \<Rightarrow> template list" where
  "getDayTemplate dayIndex =
     (if dayIndex = 0 then
     [
      \<lparr>name = ''Genuflexiuni cu gantere'', target = 30, unit = ''reps'',
        description = ''3 seturi a 10 genuflexiuni cu gantere.'',
        equipment = Some [''gantere'']\<rparr>,
      \<lparr>name = ''Flot'' @ a_breve @ ''ri clasice'', target = 40, unit = ''reps'',
        description = ''4 seturi de flot'' @ a_breve @ ''ri standard.'',
        equipment = Some []\<rparr>,
      \<lparr>name = ''Shoulder press cu gantere'', target = 24, unit = ''reps'',
        description = ''3 seturi a 8 ridic'' @ a_breve @ ''ri deasupra capului.'',
        equipment = Some [''gantere'']\<rparr>,
      \<lparr>name = ''Flot'' @ a_breve @ ''ri diamante'', target = 20, unit = ''reps'',
        description = ''2 seturi a 10 flot'' @ a_breve @ ''ri cu palmele apropiate.'',
        equipment = Some []\<rparr>,
      \<lparr>name = ''Plank'', target = 60, unit = ''sec'',
        description = ''3 plan'' @ s_comma @ ''e de c'' @ a_circumflex @ ''te 20 de secunde.'',
        equipment = Some []\<rparr>]
     else if dayIndex = 1 then
     [
      \<lparr>name = ''Trac'' @ t_comma @ ''iuni asistate'', target = 15, unit = ''reps'',
        description = ''Folosind o band'' @ a_breve @ '' elastic'' @ a_breve @ '', efectueaz'' @ a_breve @ '' 3 seturi a 5 trac'' @ t_comma @ ''iuni.'',
        equipment = Some [''banda'']\<rparr>,
      \<lparr>name = ''Trac'' @ t_comma @ ''iuni negative'', target = 10, unit = ''reps'',
        description = ''Sari la bar'' @ a_breve @ '' '' @ s_comma @ ''i coboar'' @ a_breve @ '' lent, 2-3 secunde pe repetare.'',
        equipment = Some []\<rparr>,
      \<lparr>name = ''Ramat cu gantera'', target = 30, unit = ''reps'',
        description = ''3 seturi a 10 pentru fiecare bra'' @ t_comma @ ''.'',
        equipment = Some [''gantere'']\<rparr>,
      \<lparr>name = ''Biceps curls'', target = 30, unit = ''reps'',
        description = ''3 seturi a 10 flexii cu gantere.'',
        equipment = Some [''gantere'']\<rparr>,
      \<lparr>name = ''Plank lateral'', target = 60, unit = ''sec'',
        description = ''2 seturi, 30 de secunde pe fiecare parte.'',
        equipment = Some []\<rparr>]
     else if dayIndex = 2 then
     [
      \<lparr>name = ''Mers '' @ i_circumflex @ ''nclinat'', target = 30, unit = ''min'',
        description = ''30 de minute de mers alert pe band'' @ a_breve @ '' '' @ i_circumflex @ ''nclinat'' @ a_breve @ '' sau '' @ i_circumflex @ ''n aer liber.'',
        equipment = Some []\<rparr>,
      \<lparr>name = ''Stretching'', target = 10, unit = ''min'',
        description = ''10 minute de stretching '' @ s_comma @ ''i mobilitate.'',
        equipment = Some []\<rparr>]
     else if dayIndex = 3 then
     [
      \<lparr>name = ''Fand'' @ a_breve @ ''ri'', target = 40, unit = ''reps'',
        description = ''20 pe fiecare picior, 2 seturi.'',
        equipment = Some []\<rparr>,
      \<lparr>name = ''Flot'' @ a_breve @ ''ri declinate'', target = 30, unit = ''reps'',
        description = ''3 seturi a 10 flot'' @ a_breve @ ''ri cu picioarele ridicate.'',
        equipment = Some []\<rparr>,
      \<lparr>name = ''Flot'' @ a_breve @ ''ri la spalier'', target = 24, unit = ''reps'',
        description = ''2 seturi a 12 flot'' @ a_breve @ ''ri la spalier sau perete.'',
        equipment = Some []\<rparr>,
      \<lparr>name = ''Extensii triceps'', target = 30, unit = ''reps'',
        description = ''3 seturi a 10 extensii cu gantera sau band'' @ a_breve @ ''.'',
        equipment = Some [''gantere'', ''banda'']\<rparr>,
      \<lparr>name = ''Abdomene mixte'', target = 30, unit = ''reps'',
        description = ''Combina'' @ t_comma @ ''ii de crunch-uri '' @ s_comma @ ''i ridic'' @ a_breve @ ''ri de picioare.'',
        equipment = Some []\<rparr>]
     else if dayIndex = 4 then
     [
      \<lparr>name = ''Trac'' @ t_comma @ ''iuni negative'', target = 10, unit = ''reps'',
        description = I_circumflex @ ''ncetine'' @ s_comma @ ''te cobor'' @ a_circumflex @ ''rea c'' @ a_circumflex @ ''t po'' @ t_comma @ ''i.'',
        equipment = Some []\<rparr>,
      \<lparr>name = ''Trac'' @ t_comma @ ''iuni asistate'', target = 15, unit = ''reps'',
        description = ''Band'' @ a_breve @ '' elastic'' @ a_breve @ '' cu rezisten'' @ t_comma @ a_breve @ '' medie, 3 seturi.'',
        equipment = Some [''banda'']\<rparr>,
      \<lparr>name = ''Ramat inversat'', target = 30, unit = ''reps'',
        description = ''3 seturi a 10 la spalier sau bar'' @ a_breve @ '' joas'' @ a_breve @ ''.'',
        equipment = Some []\<rparr>,
      \<lparr>name = ''Hammer curls'', target = 24, unit = ''reps'',
        description = ''2 seturi a 12 cu gantere.'',
        equipment = Some [''gantere'']\<rparr>,
      \<lparr>name = ''Ridic'' @ a_breve @ ''ri genunchi at'' @ a_circumflex @ ''rnat'', target = 20, unit = ''reps'',
        description = ''3 seturi a 5-8 ridic'' @ a_breve @ ''ri de genunchi.'',
        equipment = Some []\<rparr>]
     else if dayIndex = 5 then
     [
      \<lparr>name = ''Alergare + mers'', target = 30, unit = ''min'',
        description = ''20 minute alergare u'' @ s_comma @ ''oar'' @ a_breve @ '', 10 minute mers.'',
        equipment = Some []\<rparr>,
      \<lparr>name = ''Stretching'', target = 15, unit = ''min'',
        description = ''Stretching amplu pentru tot corpul.'',
        equipment = Some []\<rparr>]
     else if dayIndex = 6 then
     [
      \<lparr>name = ''Odihn'' @ a_breve @ '' complet'' @ a_breve, target = 1, unit = ''rest'',
        description = ''Relaxeaz'' @ a_breve @ ''-te, hidrateaz'' @ a_breve @ ''-te '' @ s_comma @ ''i preg'' @ a_breve @ ''te'' @ s_comma @ ''te-te pentru s'' @ a_breve @ ''pt'' @ a_breve @ ''m'' @ a_circumflex @ ''na urm'' @ a_breve @ ''toare.'',
        equipment = None\<rparr>]
     else [])"

section \<open>Equipment adaptation\<close>

text \<open>
  \<^verbatim>\<open>adaptExerciseForEquipment(exercise, equipmentPrefs)\<close>. The exercise is returned as it is
  when it has no \<^verbatim>\<open>equipment\<close> field, an empty one, or when \<^verbatim>\<open>equipmentPrefs[eq]\<close> is truthy
  for every required tag (the \<^verbatim>\<open>forEach\<close> clears \<^verbatim>\<open>allAvailable\<close> at any other tag).
  Otherwise a copy is returned with a new target, name and description. Every target is
  a number, so \<^verbatim>\<open>typeof adapted.target === 'number'\<close> holds.
\<close>

definition adaptExerciseForEquipment :: "template \<Rightarrow> (string \<rightharpoonup> bool) option \<Rightarrow> template" where
  "adaptExerciseForEquipment exercise equipmentPrefs =
     (case equipment exercise of
        None \<Rightarrow> exercise
      | Some eqs \<Rightarrow>
          if eqs = [] then exercise
          else
            let allAvailable =
                  list_all (\<lambda>eq. case equipmentPrefs of None \<Rightarrow> False | Some m \<Rightarrow> m eq = Some True) eqs
            in if allAvailable then exercise
               else exercise
                 \<lparr>target := max 1 (Math_round (target exercise * (1 / 2))),
                  name := name exercise @ '' (adaptat)'',
                  description := description exercise @ '' (adaptat pentru lipsa echipamentului)''\<rparr>)"

section \<open>Plan generation\<close>

text \<open>
  The body of the \<^verbatim>\<open>map\<close> callback of \<^verbatim>\<open>createPlan\<close>, in two steps: \<open>adaptClone\<close> is the
  variable \<^verbatim>\<open>cloned\<close> after the equipment step (the clone copies the template field by
  field), and \<open>createExercise\<close> applies the difficulty factor and adds \<^verbatim>\<open>completed: 0\<close>.
\<close>

definition adaptClone :: "prefs option \<Rightarrow> template \<Rightarrow> template" where
  "adaptClone preferences' ex =
     (case preferences' of
        None \<Rightarrow> ex
      | Some p \<Rightarrow>
          (case prefEquipment p of
             None \<Rightarrow> ex
           | Some m \<Rightarrow> adaptExerciseForEquipment ex (Some m)))"

definition createExercise :: "real \<Rightarrow> prefs option \<Rightarrow> template \<Rightarrow> exercise" where
  "createExercise difficulty' preferences' ex =
     (let cloned = adaptClone preferences' ex;
          newTarget =
            (if unit cloned \<noteq> ''rest'' \<and> target cloned > 0
             then max 1 (Math_round (target cloned * difficulty'))
             else target cloned)
      in \<lparr>name = name cloned, target = newTarget, unit = unit cloned,
          description = description cloned, equipment = equipment cloned, completed = 0\<rparr>)"

text \<open>
  \<^verbatim>\<open>createPlan(startDate, difficulty, preferences)\<close>; \<^verbatim>\<open>startDate\<close> is a \<^verbatim>\<open>Date\<close>, that is
  an instant, and \<^verbatim>\<open>preferences\<close> may be \<^verbatim>\<open>null\<close>.
\<close>

definition createPlan :: "timezone \<Rightarrow> instant \<Rightarrow> real \<Rightarrow> prefs option \<Rightarrow> plan" where
  "createPlan tz startDate' difficulty' preferences' =
     \<lparr>startDate = toISODate startDate',
      days = map (\<lambda>i. \<lparr>exercises = map (createExercise difficulty' preferences') (getDayTemplate (i mod 7)),
                       feedback = [], completion = 0\<rparr>) [0..<30],
      difficulty = difficulty',
      endDate = toISODate (addDays tz startDate' 29)\<rparr>"

section \<open>Completion of a day\<close>

text \<open>
  The \<^verbatim>\<open>forEach\<close> of \<^verbatim>\<open>calculateDayCompletion\<close> with its two accumulators. The stored
  \<^verbatim>\<open>completed\<close> and \<^verbatim>\<open>target\<close> are numbers, so \<^verbatim>\<open>ex.completed || 0\<close> is \<^verbatim>\<open>ex.completed\<close> and
  \<^verbatim>\<open>ex.completed && ex.completed > 0\<close> is \<^verbatim>\<open>ex.completed > 0\<close>.
\<close>

fun accumulate :: "exercise list \<Rightarrow> real \<Rightarrow> real \<Rightarrow> real \<times> real" where
  "accumulate [] total' done' = (total', done')"
| "accumulate (ex # rest) total' done' =
     (if unit ex = ''rest''
      then accumulate rest (total' + 1) (done' + (if completed ex > 0 then 1 else 0))
      else accumulate rest (total' + target ex) (done' + min (completed ex) (target ex)))"

definition calculateDayCompletion :: "day \<Rightarrow> real" where
  "calculateDayCompletion day =
     (if exercises day = [] then 0
      else
        let (total', done') = accumulate (exercises day) 0 0
        in if total' = 0 then 0 else done' / total')"

section \<open>Difficulty of the next cycle\<close>

text \<open>
  \<^verbatim>\<open>determineNextDifficulty(plan)\<close>, in double arithmetic: \<^verbatim>\<open>sum += ...\<close> rounds each
  partial sum, and \<^verbatim>\<open>sum / plan.days.length\<close> rounds the quotient. The ratio that
  \<^verbatim>\<open>calculateDayCompletion\<close> returns is a double too: the quotient of its two sums,
  rounded (the sums themselves are exact as long as they are doubles, as sums of whole
  numbers are). The literal \<^verbatim>\<open>0.8\<close> of the comparison is the double nearest to 0.8;
  \<^verbatim>\<open>0.5\<close> is a double. With no day at all the average is \<^verbatim>\<open>0 / 0\<close>, which is \<^verbatim>\<open>NaN\<close>:
  both comparisons are false and the result is \<open>1.0\<close>.
\<close>

definition determineNextDifficulty :: "plan \<Rightarrow> real" where
  "determineNextDifficulty plan =
     (let sum' = foldl (\<lambda>s d. roundToDouble (s + roundToDouble (calculateDayCompletion d))) 0
                   (days plan)
      in if days plan = [] then 1
         else
           let avg = roundToDouble (sum' / real (length (days plan)))
           in if avg \<ge> roundToDouble 0.8 then 1.1
              else if avg < 0.5 then 0.8
              else 1)"

section \<open>Recording the completion of a day\<close>

text \<open>The carry-over object pushed for an exercise with a positive remainder.\<close>

definition carryOverExercise :: "exercise \<Rightarrow> real \<Rightarrow> exercise" where
  "carryOverExercise ex remaining =
     \<lparr>name = name ex @ '' (recuperare)'', target = remaining, unit = unit ex,
      description = ''Recupereaz'' @ a_breve @ '' seturile nefinalizate de '' @ name ex,
      equipment = None, completed = 0\<rparr>"

text \<open>
  The \<^verbatim>\<open>forEach\<close> over \<^verbatim>\<open>day.exercises\<close>: it stores \<^verbatim>\<open>completed\<close> in each exercise and
  pushes to \<^verbatim>\<open>carryOver\<close>. The result is the updated exercises and the final \<^verbatim>\<open>carryOver\<close>.
\<close>

fun recordExercises ::
  "jsval list \<Rightarrow> nat \<Rightarrow> exercise list \<Rightarrow> exercise list \<Rightarrow> exercise list \<times> exercise list" where
  "recordExercises completedArray idx [] carryOver = ([], carryOver)"
| "recordExercises completedArray idx (ex # rest) carryOver =
     (let completedValue = max 0 (numberOrZero (arrayGet completedArray idx));
          remaining = target ex - completedValue;
          carryOver' =
            (if remaining > 0 then carryOver @ [carryOverExercise ex remaining] else carryOver);
          (rest', carryOver'') = recordExercises completedArray (Suc idx) rest carryOver'
      in (ex\<lparr>completed := completedValue\<rparr> # rest', carryOver''))"

text \<open>
  The part of \<^verbatim>\<open>updateDayCompletion\<close> that changes the plan (up to the assignment of
  \<^verbatim>\<open>day.completion\<close>). \<^verbatim>\<open>plan.days[dayIndex]\<close> past the end is \<^verbatim>\<open>undefined\<close>, and the
  assignment to its \<^verbatim>\<open>feedback\<close> raises before anything is changed.
\<close>

definition recordDay :: "plan \<Rightarrow> nat \<Rightarrow> jsval list \<Rightarrow> string \<Rightarrow> error + plan" where
  "recordDay plan dayIndex completedArray feedback' =
     (if dayIndex \<ge> length (days plan) then Inl TypeError
      else
        let day = days plan ! dayIndex;
            (exs, carryOver) = recordExercises completedArray 0 (exercises day) [];
            days1 = (days plan)[dayIndex := day\<lparr>feedback := feedback', exercises := exs\<rparr>];
            days2 =
              (if carryOver \<noteq> [] \<and> dayIndex + 1 < length (days plan)
               then days1[dayIndex + 1 :=
                      (days1 ! (dayIndex + 1))
                        \<lparr>exercises := exercises (days1 ! (dayIndex + 1)) @ carryOver\<rparr>]
               else days1);
            day2 = days2 ! dayIndex;
            days3 = days2[dayIndex := day2\<lparr>completion := calculateDayCompletion day2\<rparr>]
        in Inr (plan\<lparr>days := days3\<rparr>))"

text \<open>
  \<^verbatim>\<open>updateDayCompletion(user, plan, dayIndex, completedArray, feedback)\<close>. Both callers
  pass as \<^verbatim>\<open>plan\<close> an element of \<^verbatim>\<open>user.plans\<close>, which the function changes in place; the
  reference is modelled by the plan's position \<open>planIndex\<close> in \<^verbatim>\<open>user.plans\<close>. When
  \<^verbatim>\<open>user.preferences\<close> is missing the code takes \<^verbatim>\<open>{ difficulty: 1.0, equipment: {} }\<close>,
  and \<^verbatim>\<open>prefs.difficulty || 1.0\<close> replaces a zero difficulty by \<open>1.0\<close>.
\<close>

definition defaultPrefs :: prefs where
  "defaultPrefs = \<lparr>prefDifficulty = 1, prefEquipment = Some Map.empty\<rparr>"

definition updateDayCompletion ::
  "timezone \<Rightarrow> user \<Rightarrow> nat \<Rightarrow> nat \<Rightarrow> jsval list \<Rightarrow> string \<Rightarrow> error + user" where
  "updateDayCompletion tz user planIndex dayIndex completedArray feedback' =
     (if planIndex \<ge> length (plans user) then Inl TypeError
      else
        case recordDay (plans user ! planIndex) dayIndex completedArray feedback' of
          Inl e \<Rightarrow> Inl e
        | Inr plan \<Rightarrow>
            let user1 = user\<lparr>plans := (plans user)[planIndex := plan]\<rparr>
            in if dayIndex + 1 \<ge> length (days plan)
               then
                 let difficultyFactor = determineNextDifficulty plan;
                     nextStartDate = addDays tz (Date_parse (endDate plan)) 1;
                     prfs = (case preferences user of None \<Rightarrow> defaultPrefs | Some p \<Rightarrow> p);
                     combinedDifficulty =
                       (if prefDifficulty prfs = 0 then 1 else prefDifficulty prfs) * difficultyFactor;
                     newPlan = createPlan tz nextStartDate combinedDifficulty (Some prfs)
                 in Inr (user1\<lparr>plans := plans user1 @ [newPlan]\<rparr>)
               else Inr user1)"

section \<open>The current plan\<close>

text \<open>
  \<^verbatim>\<open>getCurrentPlan(user)\<close>; the clock \<^verbatim>\<open>new Date()\<close> is the parameter \<open>now\<close>. The result
  \<^verbatim>\<open>null\<close> is \<open>None\<close>.
\<close>

definition getCurrentPlan :: "instant \<Rightarrow> user \<Rightarrow> plan option" where
  "getCurrentPlan now user =
     (if plans user = [] then None
      else
        let plan = last (plans user);
            endDate' = Date_parse (endDate plan);
            today = now
        in if today > endDate' then None else Some plan)"


section \<open>Notions of the specification\<close>

text \<open>
  What an exercise contributes to the total and to the done amount of its day, in the
  specification's words.
\<close>

definition totalContribution :: "exercise \<Rightarrow> real" where
  "totalContribution ex = (if unit ex = ''rest'' then 1 else target ex)"

definition doneContribution :: "exercise \<Rightarrow> real" where
  "doneContribution ex =
     (if unit ex = ''rest'' then (if completed ex > 0 then 1 else 0)
      else min (completed ex) (target ex))"

definition dayTotal :: "day \<Rightarrow> real" where
  "dayTotal day = sum_list (map totalContribution (exercises day))"

definition dayDone :: "day \<Rightarrow> real" where
  "dayDone day = sum_list (map doneContribution (exercises day))"

text \<open>
  A valid day: every target is a non-negative integer and every completed value is
  non-negative.
\<close>

definition validDay :: "day \<Rightarrow> bool" where
  "validDay day =
     list_all (\<lambda>ex. 0 \<le> target ex \<and> target ex = of_int \<lfloor>target ex\<rfloor> \<and> 0 \<le> completed ex)
       (exercises day)"

text \<open>
  A day whose every exercise is met: a rest exercise has a positive completed value, any
  other one has reached its target.
\<close>

definition fullyCompleted :: "day \<Rightarrow> bool" where
  "fullyCompleted day =
     list_all (\<lambda>ex. if unit ex = ''rest'' then completed ex > 0 else completed ex \<ge> target ex)
       (exercises day)"




text \<open>
  The value stored for the exercise at position \<open>idx\<close>: the larger of 0 and the supplied
  value, a missing or \<^verbatim>\<open>NaN\<close> value counting as 0.
\<close>

definition storedValue :: "jsval list \<Rightarrow> nat \<Rightarrow> real" where
  "storedValue completedArray idx = max 0 (numberOrZero (arrayGet completedArray idx))"

text \<open>
  The exercises of a day paired with their unmet remainders, and the carry-over exercises
  of those whose remainder is positive, in the order of the day's exercises. The positions
  start at \<open>idx\<close>.
\<close>

definition remainders :: "jsval list \<Rightarrow> nat \<Rightarrow> exercise list \<Rightarrow> (exercise \<times> real) list" where
  "remainders completedArray idx exs =
     map (\<lambda>(i, ex). (ex, target ex - storedValue completedArray i)) (enumerate idx exs)"

definition carryOvers :: "jsval list \<Rightarrow> nat \<Rightarrow> exercise list \<Rightarrow> exercise list" where
  "carryOvers completedArray idx exs =
     map (\<lambda>(ex, r). carryOverExercise ex r)
       (filter (\<lambda>(ex, r). r > 0) (remainders completedArray idx exs))"


text \<open>The exercises of a day after a recording: each with its stored value.\<close>

definition recorded :: "jsval list \<Rightarrow> nat \<Rightarrow> exercise list \<Rightarrow> exercise list" where
  "recorded completedArray idx exs =
     map (\<lambda>(i, ex). ex\<lparr>completed := storedValue completedArray i\<rparr>) (enumerate idx exs)"

text \<open>
  The preferences a recording works with, and the user's baseline difficulty: the
  preferences' difficulty, or 1 when the user has no preferences or the difficulty is 0.
\<close>

definition effectivePrefs :: "user \<Rightarrow> prefs" where
  "effectivePrefs user = (case preferences user of None \<Rightarrow> defaultPrefs | Some p \<Rightarrow> p)"

definition baselineDifficulty :: "user \<Rightarrow> real" where
  "baselineDifficulty user =
     (if prefDifficulty (effectivePrefs user) = 0 then 1 else prefDifficulty (effectivePrefs user))"

text \<open>The plan that follows a finished plan, as the recording of its last day builds it.\<close>

definition successorPlan :: "timezone \<Rightarrow> user \<Rightarrow> plan \<Rightarrow> plan" where
  "successorPlan tz user plan =
     createPlan tz (addDays tz (Date_parse (endDate plan)) 1)
       (baselineDifficulty user * determineNextDifficulty plan) (Some (effectivePrefs user))"

text \<open>
  Repeated recordings of one day of one plan, each call with its own completed values
  and feedback; an error ends the sequence.
\<close>

fun recordRepeatedly ::
  "timezone \<Rightarrow> user \<Rightarrow> nat \<Rightarrow> nat \<Rightarrow> (jsval list \<times> string) list \<Rightarrow> error + user" where
  "recordRepeatedly tz user planIndex dayIndex [] = Inr user"
| "recordRepeatedly tz user planIndex dayIndex ((ca, fb) # calls) =
     (case updateDayCompletion tz user planIndex dayIndex ca fb of
        Inl e \<Rightarrow> Inl e
      | Inr user' \<Rightarrow> recordRepeatedly tz user' planIndex dayIndex calls)"

section \<open>Sample data\<close>

text \<open>
  An exercise of ten repetitions with a given completed value, a day holding this one
  exercise, and a plan of thirty such days.
\<close>

definition repsExercise :: "real \<Rightarrow> real \<Rightarrow> exercise" where
  "repsExercise t c =
     \<lparr>name = ''Plank'', target = t, unit = ''reps'', description = [], equipment = Some [],
      completed = c\<rparr>"

definition singleDay :: "real \<Rightarrow> real \<Rightarrow> day" where
  "singleDay t c = \<lparr>exercises = [repsExercise t c], feedback = [], completion = 0\<rparr>"

definition uniformPlan :: "real \<Rightarrow> plan" where
  "uniformPlan c =
     \<lparr>startDate = 19723, days = replicate 30 (singleDay 10 c), difficulty = 1, endDate = 19752\<rparr>"



text \<open>A day whose one exercise has target zero, and a day that is fully done.\<close>

definition zeroTargetDay :: day where
  "zeroTargetDay = singleDay 0 0"

definition restExercise :: "real \<Rightarrow> exercise" where
  "restExercise c =
     \<lparr>name = ''Odihn'' @ a_breve @ '' complet'' @ a_breve, target = 1, unit = ''rest'',
      description = [], equipment = None, completed = c\<rparr>"

definition doneDay :: day where
  "doneDay = \<lparr>exercises = [repsExercise 30 35, restExercise 1], feedback = [], completion = 0\<rparr>"

text \<open>
  A user whose history is one plan of thirty days, ten repetitions a day, nothing done
  yet, with dumbbells and a band available.
\<close>

definition fullEquipment :: "string \<rightharpoonup> bool" where
  "fullEquipment = [''gantere'' \<mapsto> True, ''banda'' \<mapsto> True, ''vesta'' \<mapsto> True]"

definition sampleUser :: user where
  "sampleUser =
     \<lparr>plans = [uniformPlan 0],
      preferences = Some \<lparr>prefDifficulty = 1, prefEquipment = Some fullEquipment\<rparr>\<rparr>"

text \<open>
  A user whose one plan was generated on 2024-01-01 (day 19723, a Monday) in UTC with
  difficulty 1 and all equipment.
\<close>

definition fullPrefs :: prefs where
  "fullPrefs = \<lparr>prefDifficulty = 1, prefEquipment = Some fullEquipment\<rparr>"

definition generatedUser :: user where
  "generatedUser =
     \<lparr>plans = [createPlan (fixedZone 0) (Date_parse 19723) 1 (Some fullPrefs)],
      preferences = Some fullPrefs\<rparr>"

text \<open>
  The plan of a user who has recorded ten of ten repetitions on each of the thirty days:
  every day caches the completion 1.
\<close>

definition finishedDay :: day where
  "finishedDay = \<lparr>exercises = [repsExercise 10 10], feedback = [], completion = 1\<rparr>"

definition finishedUser :: user where
  "finishedUser =
     \<lparr>plans = [\<lparr>startDate = 19723, days = replicate 30 finishedDay, difficulty = 1,
                endDate = 19752\<rparr>],
      preferences = Some fullPrefs\<rparr>"

text \<open>
  Users whose one plan ends on 2024-03-31 (day 19813), the day the clocks of
  Europe/Bucharest go forward, and on 2024-03-09 (day 19791).
\<close>

definition userEnding :: "isodate \<Rightarrow> user" where
  "userEnding e =
     \<lparr>plans = [\<lparr>startDate = e - 29, days = replicate 30 (singleDay 10 0), difficulty = 1,
                endDate = e\<rparr>],
      preferences = Some fullPrefs\<rparr>"

section \<open>Rounding to a double\<close>

lemma findExponent_numeral [simp]:
  "findExponent (numeral k) x e =
     (if x < 1 then findExponent (pred_numeral k) (2 * x) (e - 1)
      else if 2 \<le> x then findExponent (pred_numeral k) (x / 2) (e + 1)
      else e)"
  by (simp add: numeral_eq_Suc)

text \<open>
  With enough steps \<open>findExponent\<close> returns the exponent: the power of two at or below
  \<open>x\<close> whose double is above \<open>x\<close>.
\<close>

lemma findExponent_bounds:
  "0 < x \<Longrightarrow> 2 powi (- int fuel) \<le> x \<Longrightarrow> x < 2 powi (int fuel + 1) \<Longrightarrow>
   2 powi (findExponent fuel x e - e) \<le> x \<and> x < 2 powi (findExponent fuel x e - e + 1)"
proof (induction fuel arbitrary: x e)
  case 0
  then show ?case by simp
next
  case (Suc fuel)
  have p: "(2::real) powi (k + 1) = 2 * 2 powi k" for k
    by (simp add: power_int_add)
  have one: "(1::real) \<le> 2 ^ fuel" by simp
  show ?case
  proof (cases "x < 1")
    case True
    define k where "k = findExponent fuel (2 * x) (e - 1) - (e - 1)"
    have a: "2 powi (- int fuel) \<le> 2 * x"
      using Suc.prems(2) p [of "- int (Suc fuel)"] by simp
    have b: "2 * x < 2 powi (int fuel + 1)"
    proof -
      from True one have "2 * x < 2 * 2 ^ fuel" by linarith
      with p [of "int fuel"] show ?thesis by simp
    qed
    from Suc.IH [of "2 * x" "e - 1", OF _ a b] Suc.prems(1)
    have "2 powi k \<le> 2 * x" and "2 * x < 2 powi (k + 1)"
      unfolding k_def by simp_all
    with p [of "k - 1"] p [of k]
    have "2 powi (k - 1) \<le> x \<and> x < 2 powi (k - 1 + 1)" by simp
    moreover have "findExponent (Suc fuel) x e - e = k - 1"
      using True by (simp add: k_def)
    ultimately show ?thesis by simp
  next
    case False
    show ?thesis
    proof (cases "2 \<le> x")
      case True
      define k where "k = findExponent fuel (x / 2) (e + 1) - (e + 1)"
      have a: "2 powi (- int fuel) \<le> x / 2"
      proof -
        have "(2::real) powi (- int fuel) = 1 / 2 ^ fuel"
          by (simp add: power_int_minus divide_inverse)
        with one have "(2::real) powi (- int fuel) \<le> 1" by simp
        with True show ?thesis by linarith
      qed
      have b: "x / 2 < 2 powi (int fuel + 1)"
        using Suc.prems(3) p [of "int fuel + 1"] by (simp add: algebra_simps)
      from Suc.IH [of "x / 2" "e + 1", OF _ a b] Suc.prems(1)
      have "2 powi k \<le> x / 2" and "x / 2 < 2 powi (k + 1)"
        unfolding k_def by simp_all
      with p [of "k + 1"] p [of k]
      have "2 powi (k + 1) \<le> x \<and> x < 2 powi (k + 1 + 1)" by simp
      moreover have "findExponent (Suc fuel) x e - e = k + 1"
        using True \<open>\<not> x < 1\<close> by (simp add: k_def)
      ultimately show ?thesis by simp
    next
      case False
      with \<open>\<not> x < 1\<close> show ?thesis by simp
    qed
  qed
qed


text \<open>The rounding goes to a nearest multiple: it moves \<open>x\<close> by at most half a step.\<close>

lemma roundHalfEven_nearest: "\<bar>of_int (roundHalfEven m) - m\<bar> \<le> 1 / 2"
  unfolding roundHalfEven_def Let_def by (auto simp: abs_le_iff)



section \<open>The completion ratio\<close>

lemma accumulate_sums:
  "accumulate exs total' done' =
     (total' + sum_list (map totalContribution exs), done' + sum_list (map doneContribution exs))"
  by (induction exs arbitrary: total' done')
     (simp_all add: totalContribution_def doneContribution_def)

lemma calculateDayCompletion_eq:
  "calculateDayCompletion day = (if dayTotal day = 0 then 0 else dayDone day / dayTotal day)"
  by (cases "exercises day")
     (simp_all add: calculateDayCompletion_def accumulate_sums dayTotal_def dayDone_def)

lemma contributions_bounds:
  "list_all (\<lambda>ex. 0 \<le> target ex \<and> target ex = of_int \<lfloor>target ex\<rfloor> \<and> 0 \<le> completed ex) exs \<Longrightarrow>
   0 \<le> sum_list (map doneContribution exs) \<and>
   sum_list (map doneContribution exs) \<le> sum_list (map totalContribution exs)"
proof (induction exs)
  case Nil
  then show ?case by simp
next
  case (Cons ex exs)
  then have "0 \<le> doneContribution ex" and "doneContribution ex \<le> totalContribution ex"
    by (simp_all add: doneContribution_def totalContribution_def)
  with Cons show ?case by simp
qed

lemma validDay_sums: "validDay day \<Longrightarrow> 0 \<le> dayDone day \<and> dayDone day \<le> dayTotal day"
  unfolding validDay_def dayDone_def dayTotal_def by (rule contributions_bounds)

lemma contributions_met:
  "list_all (\<lambda>ex. if unit ex = ''rest'' then completed ex > 0 else completed ex \<ge> target ex) exs \<Longrightarrow>
   sum_list (map doneContribution exs) = sum_list (map totalContribution exs)"
  by (induction exs) (simp_all add: doneContribution_def totalContribution_def split: if_splits)

lemma fullyCompleted_sums: "fullyCompleted day \<Longrightarrow> dayDone day = dayTotal day"
  unfolding fullyCompleted_def dayDone_def dayTotal_def by (rule contributions_met)

text \<open>
  Claim C4, as amended. An empty exercise list yields 0. The ratio is the done amount over
  the total, or 0 when the total is 0, where a rest exercise contributes 1 to the total
  and 1 to the done amount iff its completed value is positive, and any other exercise
  contributes its target and the smaller of its completed value and its target. For a
  valid day the ratio lies between 0 and 1. A day whose every exercise is met and whose
  total is not 0 yields exactly 1.
\<close>

theorem calculateDayCompletion_ratio:
  "calculateDayCompletion \<lparr>exercises = [], feedback = fb, completion = c\<rparr> = 0
   \<and> calculateDayCompletion day = (if dayTotal day = 0 then 0 else dayDone day / dayTotal day)
   \<and> (validDay day \<longrightarrow> 0 \<le> calculateDayCompletion day \<and> calculateDayCompletion day \<le> 1)
   \<and> (fullyCompleted day \<and> dayTotal day \<noteq> 0 \<longrightarrow> calculateDayCompletion day = 1)"
proof (intro conjI impI)
  show "calculateDayCompletion \<lparr>exercises = [], feedback = fb, completion = c\<rparr> = 0"
    by (simp add: calculateDayCompletion_def)
  show "calculateDayCompletion day = (if dayTotal day = 0 then 0 else dayDone day / dayTotal day)"
    by (rule calculateDayCompletion_eq)
next
  assume "validDay day"
  then have b: "0 \<le> dayDone day" "dayDone day \<le> dayTotal day"
    using validDay_sums by blast+
  then show "0 \<le> calculateDayCompletion day"
    by (simp add: calculateDayCompletion_eq)
  from b show "calculateDayCompletion day \<le> 1"
    by (simp add: calculateDayCompletion_eq)
next
  assume "fullyCompleted day \<and> dayTotal day \<noteq> 0"
  then show "calculateDayCompletion day = 1"
    by (simp add: calculateDayCompletion_eq fullyCompleted_sums)
qed

text \<open>
  The theorem at a day of two exercises, thirty repetitions with thirty-five done and a
  rest exercise that was taken: the day is valid and met, its total is 31, its ratio 1.
\<close>

theorem calculateDayCompletion_ratio_witness:
  "validDay doneDay \<and> fullyCompleted doneDay \<and> dayTotal doneDay = 31 \<and> dayDone doneDay = 31
   \<and> calculateDayCompletion doneDay = 1
   \<and> 0 \<le> calculateDayCompletion doneDay \<and> calculateDayCompletion doneDay \<le> 1"
proof -
  have v: "validDay doneDay"
    by (simp add: validDay_def doneDay_def repsExercise_def restExercise_def)
  have f: "fullyCompleted doneDay"
    by (simp add: fullyCompleted_def doneDay_def repsExercise_def restExercise_def)
  have t: "dayTotal doneDay = 31"
    by (simp add: dayTotal_def totalContribution_def doneDay_def repsExercise_def restExercise_def)
  have d: "dayDone doneDay = 31"
    by (simp add: dayDone_def doneContribution_def doneDay_def repsExercise_def restExercise_def)
  from calculateDayCompletion_ratio [of "[]" 0 doneDay] v f t d show ?thesis
    by simp
qed

text \<open>
  Claim C4 as first stated has no condition on the total: a valid day whose one exercise
  has target 0 meets every target, and its ratio is 0, not 1.
\<close>

theorem calculateDayCompletion_full_counterexample:
  "validDay zeroTargetDay \<and> fullyCompleted zeroTargetDay
   \<and> calculateDayCompletion zeroTargetDay = 0 \<and> calculateDayCompletion zeroTargetDay \<noteq> 1"
  by (simp add: validDay_def fullyCompleted_def calculateDayCompletion_def zeroTargetDay_def
      singleDay_def repsExercise_def)


section \<open>The step function of the next difficulty\<close>










section \<open>Recording a day: what changes\<close>

lemma recordExercises_eq:
  "recordExercises ca idx exs carry = (recorded ca idx exs, carry @ carryOvers ca idx exs)"
  by (induction exs arbitrary: idx carry)
     (simp_all add: recorded_def carryOvers_def remainders_def storedValue_def Let_def)

lemma length_recorded: "length (recorded ca idx exs) = length exs"
  by (simp add: recorded_def)

lemma nth_recorded:
  "i < length exs \<Longrightarrow> recorded ca idx exs ! i = (exs ! i)\<lparr>completed := storedValue ca (idx + i)\<rparr>"
  by (simp add: recorded_def nth_enumerate_eq)



lemma list_update_twice_around:
  "xs[k := a, Suc k := b, k := c] = xs[Suc k := b, k := c]"
  by (simp add: list_update_swap [of k "Suc k"])

lemma recordDay_eq:
  assumes "dayIndex < length (days plan)"
  shows "recordDay plan dayIndex ca fb =
    Inr (plan\<lparr>days := (days plan)
      [Suc dayIndex := (days plan ! Suc dayIndex)
         \<lparr>exercises := exercises (days plan ! Suc dayIndex)
            @ carryOvers ca 0 (exercises (days plan ! dayIndex))\<rparr>,
       dayIndex := (days plan ! dayIndex)
         \<lparr>feedback := fb,
          exercises := recorded ca 0 (exercises (days plan ! dayIndex)),
          completion := calculateDayCompletion
            ((days plan ! dayIndex)
               \<lparr>feedback := fb, exercises := recorded ca 0 (exercises (days plan ! dayIndex))\<rparr>)\<rparr>]\<rparr>)"
proof -
  consider
      (push) "carryOvers ca 0 (exercises (days plan ! dayIndex)) \<noteq> []" "Suc dayIndex < length (days plan)"
    | (none) "carryOvers ca 0 (exercises (days plan ! dayIndex)) = []"
    | (last) "\<not> Suc dayIndex < length (days plan)"
    by blast
  then show ?thesis
  proof cases
    case push
    with assms show ?thesis
      by (simp add: recordDay_def recordExercises_eq Let_def list_update_twice_around)
  next
    case none
    with assms show ?thesis
      by (simp add: recordDay_def recordExercises_eq Let_def)
  next
    case last
    with assms show ?thesis
      by (simp add: recordDay_def recordExercises_eq Let_def list_update_beyond)
  qed
qed

lemma recordDay_facts:
  assumes "dayIndex < length (days plan)"
  obtains plan' where
    "recordDay plan dayIndex ca fb = Inr plan'"
    "length (days plan') = length (days plan)"
    "startDate plan' = startDate plan" "endDate plan' = endDate plan"
    "difficulty plan' = difficulty plan"
    "exercises (days plan' ! dayIndex) = recorded ca 0 (exercises (days plan ! dayIndex))"
    "feedback (days plan' ! dayIndex) = fb"
    "completion (days plan' ! dayIndex) = calculateDayCompletion (days plan' ! dayIndex)"
    "Suc dayIndex < length (days plan) \<Longrightarrow>
       days plan' ! Suc dayIndex = (days plan ! Suc dayIndex)
         \<lparr>exercises := exercises (days plan ! Suc dayIndex)
            @ carryOvers ca 0 (exercises (days plan ! dayIndex))\<rparr>"
    "\<And>j. j \<noteq> dayIndex \<Longrightarrow> j \<noteq> Suc dayIndex \<Longrightarrow> days plan' ! j = days plan ! j"
proof -
  have c: "calculateDayCompletion (d\<lparr>completion := x\<rparr>) = calculateDayCompletion d" for d x
    by (simp add: calculateDayCompletion_def)
  show thesis
    by (rule that [OF recordDay_eq [OF assms]]) (use assms in \<open>simp_all add: c\<close>)
qed

lemma updateDayCompletion_eq:
  assumes "planIndex < length (plans user)"
    and "recordDay (plans user ! planIndex) dayIndex ca fb = Inr plan'"
  shows "updateDayCompletion tz user planIndex dayIndex ca fb =
    Inr (user\<lparr>plans := (plans user)[planIndex := plan']
       @ (if length (days plan') \<le> Suc dayIndex then [successorPlan tz user plan'] else [])\<rparr>)"
  using assms
  by (simp add: updateDayCompletion_def successorPlan_def baselineDifficulty_def
      effectivePrefs_def Let_def)


section \<open>Carry-over\<close>

lemma createPlan_days:
  "length (days (createPlan tz s d p)) = 30"
  "i < 30 \<Longrightarrow> exercises (days (createPlan tz s d p) ! i) = map (createExercise d p) (getDayTemplate (i mod 7))"
  "i < 30 \<Longrightarrow> feedback (days (createPlan tz s d p) ! i) = []"
  "i < 30 \<Longrightarrow> completion (days (createPlan tz s d p) ! i) = 0"
  by (simp_all add: createPlan_def del: upt_Suc)



lemma sampleUser_plan:
  "plans sampleUser = [uniformPlan 0]"
  "length (days (uniformPlan c)) = 30"
  "i < 30 \<Longrightarrow> days (uniformPlan c) ! i = singleDay 10 c"
  by (simp_all add: sampleUser_def uniformPlan_def)



section \<open>The stored completed values\<close>

text \<open>
  Claim C6. A recording on a day of the plan succeeds whatever the completed values are,
  and stores for each exercise the larger of 0 and the supplied value, where a value that
  is missing (past the end of the array), \<^verbatim>\<open>undefined\<close> or \<^verbatim>\<open>NaN\<close> counts as 0; the stored
  value is never negative. The entries of the array are numbers, \<^verbatim>\<open>NaN\<close> or
  \<^verbatim>\<open>undefined\<close>: both callers build it from \<^verbatim>\<open>Number(inp.value)\<close> or from zeros, so a text
  that is not a number reaches the function as \<^verbatim>\<open>NaN\<close>.
\<close>

theorem updateDayCompletion_stored_values:
  assumes "planIndex < length (plans user)"
    and "dayIndex < length (days (plans user ! planIndex))"
  shows "\<exists>user'. updateDayCompletion tz user planIndex dayIndex ca fb = Inr user'
    \<and> length (exercises (days (plans user' ! planIndex) ! dayIndex)) =
        length (exercises (days (plans user ! planIndex) ! dayIndex))
    \<and> (\<forall>idx < length (exercises (days (plans user ! planIndex) ! dayIndex)).
          0 \<le> completed (exercises (days (plans user' ! planIndex) ! dayIndex) ! idx)
        \<and> completed (exercises (days (plans user' ! planIndex) ! dayIndex) ! idx) =
            max 0 (numberOrZero (arrayGet ca idx))
        \<and> (length ca \<le> idx \<longrightarrow>
              completed (exercises (days (plans user' ! planIndex) ! dayIndex) ! idx) = 0)
        \<and> (idx < length ca \<and> ca ! idx = Undefined \<longrightarrow>
              completed (exercises (days (plans user' ! planIndex) ! dayIndex) ! idx) = 0)
        \<and> (idx < length ca \<and> ca ! idx = NaN \<longrightarrow>
              completed (exercises (days (plans user' ! planIndex) ! dayIndex) ! idx) = 0)
        \<and> (\<forall>x. idx < length ca \<and> ca ! idx = Num x \<longrightarrow>
              completed (exercises (days (plans user' ! planIndex) ! dayIndex) ! idx) = max 0 x))"
proof -
  let ?plan = "plans user ! planIndex"
  from recordDay_facts [OF assms(2), of ca fb] obtain plan' where
    r: "recordDay ?plan dayIndex ca fb = Inr plan'"
    and e: "exercises (days plan' ! dayIndex) = recorded ca 0 (exercises (days ?plan ! dayIndex))"
    by blast
  let ?user' = "user\<lparr>plans := (plans user)[planIndex := plan']
       @ (if length (days plan') \<le> Suc dayIndex then [successorPlan tz user plan'] else [])\<rparr>"
  have u: "updateDayCompletion tz user planIndex dayIndex ca fb = Inr ?user'"
    by (rule updateDayCompletion_eq [OF assms(1) r])
  have p: "plans ?user' ! planIndex = plan'"
    using assms(1) by (simp add: nth_append)
  have "length (exercises (days (plans ?user' ! planIndex) ! dayIndex)) =
        length (exercises (days ?plan ! dayIndex))"
    unfolding p e by (rule length_recorded)
  moreover have "\<forall>idx < length (exercises (days ?plan ! dayIndex)).
          0 \<le> completed (exercises (days (plans ?user' ! planIndex) ! dayIndex) ! idx)
        \<and> completed (exercises (days (plans ?user' ! planIndex) ! dayIndex) ! idx) =
            max 0 (numberOrZero (arrayGet ca idx))
        \<and> (length ca \<le> idx \<longrightarrow>
              completed (exercises (days (plans ?user' ! planIndex) ! dayIndex) ! idx) = 0)
        \<and> (idx < length ca \<and> ca ! idx = Undefined \<longrightarrow>
              completed (exercises (days (plans ?user' ! planIndex) ! dayIndex) ! idx) = 0)
        \<and> (idx < length ca \<and> ca ! idx = NaN \<longrightarrow>
              completed (exercises (days (plans ?user' ! planIndex) ! dayIndex) ! idx) = 0)
        \<and> (\<forall>x. idx < length ca \<and> ca ! idx = Num x \<longrightarrow>
              completed (exercises (days (plans ?user' ! planIndex) ! dayIndex) ! idx) = max 0 x)"
    unfolding p e
    by (simp add: nth_recorded storedValue_def numberOrZero_def arrayGet_def)
  ultimately show ?thesis
    using u by blast
qed

lemma generatedUser_day0:
  "plans generatedUser ! 0 = createPlan (fixedZone 0) (Date_parse 19723) 1 (Some fullPrefs)"
  "length (plans generatedUser) = 1"
  "length (days (plans generatedUser ! 0)) = 30"
  "length (exercises (days (plans generatedUser ! 0) ! 0)) = 5"
  by (simp_all add: generatedUser_def createPlan_days getDayTemplate_def)

text \<open>
  The theorem at the generated plan's first day (five exercises), recorded with
  \<^verbatim>\<open>[undefined, NaN, -3, 7]\<close>: the stored values are 0, 0, 0, 7 and 0.
\<close>

theorem updateDayCompletion_stored_values_witness:
  "0 < length (plans generatedUser) \<and> 0 < length (days (plans generatedUser ! 0))
   \<and> length (exercises (days (plans generatedUser ! 0) ! 0)) = 5
   \<and> (\<exists>user'. updateDayCompletion (fixedZone 0) generatedUser 0 0
                  [Undefined, NaN, Num (- 3), Num 7] ''ok'' = Inr user'
        \<and> completed (exercises (days (plans user' ! 0) ! 0) ! 0) = 0
        \<and> completed (exercises (days (plans user' ! 0) ! 0) ! 1) = 0
        \<and> completed (exercises (days (plans user' ! 0) ! 0) ! 2) = 0
        \<and> completed (exercises (days (plans user' ! 0) ! 0) ! 3) = 7
        \<and> completed (exercises (days (plans user' ! 0) ! 0) ! 4) = 0)"
proof -
  have h: "0 < length (plans generatedUser)" "0 < length (days (plans generatedUser ! 0))"
    using generatedUser_day0(2,3) by linarith+
  from updateDayCompletion_stored_values
         [OF h, of "fixedZone 0" "[Undefined, NaN, Num (- 3), Num 7]" "''ok''"]
  obtain u where u: "updateDayCompletion (fixedZone 0) generatedUser 0 0
                  [Undefined, NaN, Num (- 3), Num 7] ''ok'' = Inr u"
    and v: "\<forall>idx<5. completed (exercises (days (plans u ! 0) ! 0) ! idx) =
            max 0 (numberOrZero (arrayGet [Undefined, NaN, Num (- 3), Num 7] idx))"
    unfolding generatedUser_day0(4) by blast
  from v have "completed (exercises (days (plans u ! 0) ! 0) ! 0) = 0"
    and "completed (exercises (days (plans u ! 0) ! 0) ! 1) = 0"
    and "completed (exercises (days (plans u ! 0) ! 0) ! 2) = 0"
    and "completed (exercises (days (plans u ! 0) ! 0) ! 3) = 7"
    and "completed (exercises (days (plans u ! 0) ! 0) ! 4) = 0"
    by (simp_all add: numberOrZero_def arrayGet_def)
  with h u generatedUser_day0(4) show ?thesis
    by blast
qed


section \<open>The next day's cached completion\<close>

text \<open>
  Claim C9. In a plan of thirty days, recording day \<open>k < 29\<close> leaves the feedback and the
  cached completion of day \<open>k + 1\<close> as they were: only its exercises change. The cached
  value is not recomputed, and it can differ from the ratio computed over the extended
  list: for the user who had recorded every day in full, recording 4 of 10 on day 0
  leaves day 1 with the cached completion 1 while its ratio is now 5/8.
\<close>

theorem updateDayCompletion_next_day_cache:
  "(planIndex < length (plans user) \<and> length (days (plans user ! planIndex)) = 30 \<and> dayIndex < 29 \<longrightarrow>
     (\<exists>user'. updateDayCompletion tz user planIndex dayIndex ca fb = Inr user'
        \<and> feedback (days (plans user' ! planIndex) ! Suc dayIndex) =
            feedback (days (plans user ! planIndex) ! Suc dayIndex)
        \<and> completion (days (plans user' ! planIndex) ! Suc dayIndex) =
            completion (days (plans user ! planIndex) ! Suc dayIndex)))
   \<and> (\<exists>user'. updateDayCompletion tz finishedUser 0 0 [Num 4] [] = Inr user'
        \<and> completion (days (plans user' ! 0) ! 1) = 1
        \<and> calculateDayCompletion (days (plans user' ! 0) ! 1) = 5 / 8)"
proof (intro conjI impI)
  assume a: "planIndex < length (plans user) \<and> length (days (plans user ! planIndex)) = 30 \<and> dayIndex < 29"
  let ?plan = "plans user ! planIndex"
  from a have k: "dayIndex < length (days ?plan)" and k1: "Suc dayIndex < length (days ?plan)"
    by simp_all
  from recordDay_facts [OF k, of ca fb] k1 obtain plan' where
    r: "recordDay ?plan dayIndex ca fb = Inr plan'"
    and nxt: "days plan' ! Suc dayIndex = (days ?plan ! Suc dayIndex)
         \<lparr>exercises := exercises (days ?plan ! Suc dayIndex)
            @ carryOvers ca 0 (exercises (days ?plan ! dayIndex))\<rparr>"
    by blast
  let ?user' = "user\<lparr>plans := (plans user)[planIndex := plan']
       @ (if length (days plan') \<le> Suc dayIndex then [successorPlan tz user plan'] else [])\<rparr>"
  have u: "updateDayCompletion tz user planIndex dayIndex ca fb = Inr ?user'"
    using a by (intro updateDayCompletion_eq r) simp
  have p: "plans ?user' ! planIndex = plan'"
    using a by (simp add: nth_append)
  have "feedback (days (plans ?user' ! planIndex) ! Suc dayIndex) = feedback (days ?plan ! Suc dayIndex)"
    and "completion (days (plans ?user' ! planIndex) ! Suc dayIndex) = completion (days ?plan ! Suc dayIndex)"
    unfolding p nxt by simp_all
  with u show "\<exists>user'. updateDayCompletion tz user planIndex dayIndex ca fb = Inr user'
        \<and> feedback (days (plans user' ! planIndex) ! Suc dayIndex) = feedback (days ?plan ! Suc dayIndex)
        \<and> completion (days (plans user' ! planIndex) ! Suc dayIndex) = completion (days ?plan ! Suc dayIndex)"
    by blast
next
  let ?plan = "plans finishedUser ! 0"
  have pl: "length (plans finishedUser) = 1" "length (days ?plan) = 30"
    "days ?plan ! 0 = finishedDay" "days ?plan ! Suc 0 = finishedDay"
    by (simp_all add: finishedUser_def)
  have k: "0 < length (days ?plan)" and k1: "Suc 0 < length (days ?plan)"
    using pl(2) by linarith+
  from recordDay_facts [OF k, of "[Num 4]" "[]"] k1 obtain plan' where
    r: "recordDay ?plan 0 [Num 4] [] = Inr plan'"
    and len: "length (days plan') = length (days ?plan)"
    and nxt: "days plan' ! Suc 0 = (days ?plan ! Suc 0)
         \<lparr>exercises := exercises (days ?plan ! Suc 0)
            @ carryOvers [Num 4] 0 (exercises (days ?plan ! 0))\<rparr>"
    by blast
  let ?user' = "finishedUser\<lparr>plans := (plans finishedUser)[0 := plan']
       @ (if length (days plan') \<le> Suc 0 then [successorPlan tz finishedUser plan'] else [])\<rparr>"
  have u: "updateDayCompletion tz finishedUser 0 0 [Num 4] [] = Inr ?user'"
    using pl(1) by (intro updateDayCompletion_eq r) simp
  have p: "plans ?user' ! 0 = plan'"
    using pl(1) by (simp add: nth_append)
  have c: "carryOvers [Num 4] 0 [repsExercise 10 10] = [carryOverExercise (repsExercise 10 10) 6]"
    by (simp add: carryOvers_def remainders_def storedValue_def numberOrZero_def arrayGet_def
        repsExercise_def)
  have d1: "days plan' ! 1 = finishedDay
      \<lparr>exercises := [repsExercise 10 10, carryOverExercise (repsExercise 10 10) 6]\<rparr>"
    using nxt by (simp add: pl finishedDay_def c)
  have "completion (days (plans ?user' ! 0) ! 1) = 1"
    unfolding p d1 by (simp add: finishedDay_def)
  moreover have "calculateDayCompletion (days (plans ?user' ! 0) ! 1) = 5 / 8"
    unfolding p d1
    by (simp add: calculateDayCompletion_def finishedDay_def repsExercise_def carryOverExercise_def)
  ultimately show "\<exists>user'. updateDayCompletion tz finishedUser 0 0 [Num 4] [] = Inr user'
        \<and> completion (days (plans user' ! 0) ! 1) = 1
        \<and> calculateDayCompletion (days (plans user' ! 0) ! 1) = 5 / 8"
    using u by blast
qed


text \<open>The theorem at that user and day 0, with its hypotheses discharged.\<close>

theorem updateDayCompletion_next_day_cache_witness:
  "0 < length (plans finishedUser) \<and> length (days (plans finishedUser ! 0)) = 30 \<and> (0::nat) < 29
   \<and> (\<exists>user'. updateDayCompletion (fixedZone 0) finishedUser 0 0 [Num 4] [] = Inr user'
        \<and> feedback (days (plans user' ! 0) ! Suc 0) = []
        \<and> completion (days (plans user' ! 0) ! Suc 0) = 1
        \<and> calculateDayCompletion (days (plans user' ! 0) ! Suc 0) = 5 / 8)"
proof -
  have h: "0 < length (plans finishedUser) \<and> length (days (plans finishedUser ! 0)) = 30 \<and> (0::nat) < 29"
    by (simp add: finishedUser_def)
  have d: "days (plans finishedUser ! 0) ! Suc 0 = finishedDay"
    by (simp add: finishedUser_def)
  from updateDayCompletion_next_day_cache [of 0 finishedUser 0 "fixedZone 0" "[Num 4]" "[]"] h
  obtain u where "updateDayCompletion (fixedZone 0) finishedUser 0 0 [Num 4] [] = Inr u"
    and "feedback (days (plans u ! 0) ! Suc 0) = []"
    and "completion (days (plans u ! 0) ! Suc 0) = 1"
    and "calculateDayCompletion (days (plans u ! 0) ! Suc 0) = 5 / 8"
    by (auto simp: d finishedDay_def)
  with h show ?thesis by blast
qed


section \<open>Repeated recordings of the last day\<close>

lemma updateDayCompletion_last_day:
  assumes "planIndex < length (plans user)"
    and "length (days (plans user ! planIndex)) = 30"
  shows "\<exists>user'. updateDayCompletion tz user planIndex 29 ca fb = Inr user'
    \<and> length (plans user') = Suc (length (plans user))
    \<and> length (days (plans user' ! planIndex)) = 30"
proof -
  let ?plan = "plans user ! planIndex"
  from assms have k: "29 < length (days ?plan)" by simp
  from recordDay_facts [OF k, of ca fb] obtain plan' where
    r: "recordDay ?plan 29 ca fb = Inr plan'"
    and len: "length (days plan') = length (days ?plan)"
    by blast
  let ?user' = "user\<lparr>plans := (plans user)[planIndex := plan']
       @ (if length (days plan') \<le> Suc 29 then [successorPlan tz user plan'] else [])\<rparr>"
  have "updateDayCompletion tz user planIndex 29 ca fb = Inr ?user'"
    by (rule updateDayCompletion_eq [OF assms(1) r])
  moreover have "length (plans ?user') = Suc (length (plans user))"
    using len assms(2) by simp
  moreover have "length (days (plans ?user' ! planIndex)) = 30"
    using len assms by (simp add: nth_append)
  ultimately show ?thesis by blast
qed

text \<open>
  Claim C10. Recording the last day is not idempotent: each call that records day 29 of
  a plan of thirty days succeeds and appends one more plan, so \<open>n\<close> calls in a row grow
  the history by \<open>n\<close> plans. Nothing checks for a successor that already exists.
\<close>

theorem recordRepeatedly_last_day:
  assumes "planIndex < length (plans user)"
    and "length (days (plans user ! planIndex)) = 30"
  shows "\<exists>user'. recordRepeatedly tz user planIndex 29 calls = Inr user'
    \<and> length (plans user') = length (plans user) + length calls"
  using assms
proof (induction calls arbitrary: user)
  case Nil
  then show ?case by simp
next
  case (Cons call calls)
  obtain ca fb where call: "call = (ca, fb)" by (cases call)
  from updateDayCompletion_last_day [OF Cons.prems, of tz ca fb] obtain user1 where
    u: "updateDayCompletion tz user planIndex 29 ca fb = Inr user1"
    and l: "length (plans user1) = Suc (length (plans user))"
    and d: "length (days (plans user1 ! planIndex)) = 30"
    by blast
  from l Cons.prems(1) have "planIndex < length (plans user1)" by simp
  from Cons.IH [OF this d] obtain user' where
    "recordRepeatedly tz user1 planIndex 29 calls = Inr user'"
    and "length (plans user') = length (plans user1) + length calls"
    by blast
  with u l call show ?case by simp
qed

text \<open>The theorem at the sample user: three recordings of day 29 leave four plans.\<close>

theorem recordRepeatedly_last_day_witness:
  "0 < length (plans sampleUser) \<and> length (days (plans sampleUser ! 0)) = 30
   \<and> (\<exists>user'. recordRepeatedly (fixedZone 0) sampleUser 0 29
                  [([Num 10], ''a''), ([Num 10], ''b''), ([Num 10], ''c'')] = Inr user'
        \<and> length (plans user') = 4)"
proof -
  have h: "0 < length (plans sampleUser)" "length (days (plans sampleUser ! 0)) = 30"
    by (simp_all add: sampleUser_plan)
  from recordRepeatedly_last_day
         [OF h, of "fixedZone 0" "[([Num 10], ''a''), ([Num 10], ''b''), ([Num 10], ''c'')]"]
  obtain u where u: "recordRepeatedly (fixedZone 0) sampleUser 0 29
                  [([Num 10], ''a''), ([Num 10], ''b''), ([Num 10], ''c'')] = Inr u"
    and "length (plans u) =
      length (plans sampleUser) + length [([Num 10], ''a''), ([Num 10], ''b''), ([Num 10], ''c'') :: jsval list \<times> string]"
    by blast
  then have "length (plans u) = 4"
    by (simp add: sampleUser_plan)
  with h u show ?thesis by blast
qed


section \<open>Targets of a generated plan\<close>

lemma Math_round_of_int: "Math_round (of_int n) = of_int n"
proof -
  have "\<lfloor>(of_int n :: real) + 1 / 2\<rfloor> = n" by linarith
  then show ?thesis by (simp add: Math_round_def)
qed

lemma Math_round_mono: "x \<le> y \<Longrightarrow> Math_round x \<le> Math_round y"
  by (simp add: Math_round_def floor_mono)

lemma scale_up:
  assumes "t = of_int n" and "1 \<le> t" and "1 < d"
  shows "t \<le> max 1 (Math_round (t * d))"
proof -
  from assms have "t \<le> t * d" by simp
  then have "Math_round t \<le> Math_round (t * d)" by (rule Math_round_mono)
  with assms(1) show ?thesis by (simp add: Math_round_of_int)
qed

lemma scale_down:
  assumes "t = of_int n" and "1 \<le> t" and "d < 1"
  shows "max 1 (Math_round (t * d)) \<le> t"
proof -
  from assms have "t * d \<le> t" by simp
  then have "Math_round (t * d) \<le> Math_round t" by (rule Math_round_mono)
  with assms(1,2) show ?thesis by (simp add: Math_round_of_int)
qed

lemma catalog_targets:
  "t \<in> set (getDayTemplate k) \<Longrightarrow> \<exists>n. target t = of_int n \<and> 1 \<le> n"
proof -
  have i: "\<exists>n::int. (x::real) = of_int n \<and> 1 \<le> n" if "x \<in> {1, 10, 15, 20, 24, 30, 40, 60}" for x
  proof -
    from that have "x = of_int \<lfloor>x\<rfloor> \<and> 1 \<le> \<lfloor>x\<rfloor>" by auto
    then show ?thesis by blast
  qed
  assume "t \<in> set (getDayTemplate k)"
  then have "target t \<in> {1, 10, 15, 20, 24, 30, 40, 60}"
    by (auto simp: getDayTemplate_def split: if_splits)
  then show ?thesis by (rule i)
qed


lemma adaptClone_target:
  assumes "target t = of_int n" and "1 \<le> n"
  shows "\<exists>n'. target (adaptClone p t) = of_int n' \<and> 1 \<le> n'"
proof -
  have "max 1 (Math_round (target t * (1 / 2))) = of_int (max 1 \<lfloor>target t * (1 / 2) + 1 / 2\<rfloor>)"
    by (simp add: Math_round_def max_def)
  moreover have "1 \<le> max 1 \<lfloor>target t * (1 / 2) + 1 / 2\<rfloor>" by simp
  ultimately have "\<exists>n'. max 1 (Math_round (target t * (1 / 2))) = of_int n' \<and> 1 \<le> n'"
    by blast
  with assms show ?thesis
    by (auto simp: adaptClone_def adaptExerciseForEquipment_def Let_def split: option.splits)
qed

lemma adaptClone_full:
  assumes "prefEquipment p = Some m" and "m ''gantere'' = Some True" and "m ''banda'' = Some True"
    and "t \<in> set (getDayTemplate k)"
  shows "adaptClone (Some p) t = t"
  using assms
  by (auto simp: adaptClone_def adaptExerciseForEquipment_def getDayTemplate_def split: if_splits)

lemma createExercise_target:
  "target (createExercise d p t) =
     (if unit (adaptClone p t) \<noteq> ''rest'' \<and> target (adaptClone p t) > 0
      then max 1 (Math_round (target (adaptClone p t) * d)) else target (adaptClone p t))"
  by (simp add: createExercise_def Let_def)

lemma createPlan_exercise:
  assumes "i < 30" and "j < length (getDayTemplate (i mod 7))"
  shows "exercises (days (createPlan tz s d p) ! i) ! j = createExercise d p (getDayTemplate (i mod 7) ! j)"
  using assms by (simp add: createPlan_days)

text \<open>
  Claim C8. A generated plan has thirty days, each with one exercise per template of its
  weekday. With difficulty 1 and the equipment the catalog asks for (\<^verbatim>\<open>gantere\<close> and
  \<^verbatim>\<open>banda\<close>) every target is the template's target. For any preferences, an exercise
  that after the equipment step is not a rest exercise and has a positive target gets,
  with a difficulty above 1, a target no lower than that adapted target, and with a
  difficulty below 1, a target no higher.
\<close>

theorem createPlan_targets:
  "length (days (createPlan tz s d p)) = 30
   \<and> (\<forall>i<30. length (exercises (days (createPlan tz s d p) ! i)) = length (getDayTemplate (i mod 7)))
   \<and> (prefEquipment q = Some m \<and> m ''gantere'' = Some True \<and> m ''banda'' = Some True \<longrightarrow>
        (\<forall>i<30. map target (exercises (days (createPlan tz s 1 (Some q)) ! i)) =
                  map target (getDayTemplate (i mod 7))))
   \<and> (\<forall>i<30. \<forall>j<length (getDayTemplate (i mod 7)).
          unit (adaptClone p (getDayTemplate (i mod 7) ! j)) \<noteq> ''rest''
          \<and> 0 < target (adaptClone p (getDayTemplate (i mod 7) ! j)) \<longrightarrow>
            (1 < d \<longrightarrow> target (adaptClone p (getDayTemplate (i mod 7) ! j))
                       \<le> target (exercises (days (createPlan tz s d p) ! i) ! j))
          \<and> (d < 1 \<longrightarrow> target (exercises (days (createPlan tz s d p) ! i) ! j)
                       \<le> target (adaptClone p (getDayTemplate (i mod 7) ! j))))"
proof (intro conjI impI allI)
  show "length (days (createPlan tz s d p)) = 30"
    by (rule createPlan_days)
next
  fix i :: nat
  assume "i < 30"
  then show "length (exercises (days (createPlan tz s d p) ! i)) = length (getDayTemplate (i mod 7))"
    by (simp add: createPlan_days)
next
  fix i :: nat
  assume full: "prefEquipment q = Some m \<and> m ''gantere'' = Some True \<and> m ''banda'' = Some True"
    and i: "i < 30"
  have "target (createExercise 1 (Some q) t) = target t" if t: "t \<in> set (getDayTemplate (i mod 7))" for t
  proof -
    from full t have a: "adaptClone (Some q) t = t"
      using adaptClone_full [of q m t "i mod 7"] by simp
    from catalog_targets [OF t] obtain n where n: "target t = of_int n" "1 \<le> n" by blast
    then show ?thesis
      by (simp add: createExercise_target a Math_round_of_int)
  qed
  with i show "map target (exercises (days (createPlan tz s 1 (Some q)) ! i)) =
      map target (getDayTemplate (i mod 7))"
    by (simp add: createPlan_days)
next
  fix i j :: nat
  assume i: "i < 30" and j: "j < length (getDayTemplate (i mod 7))"
    and pos: "unit (adaptClone p (getDayTemplate (i mod 7) ! j)) \<noteq> ''rest''
          \<and> 0 < target (adaptClone p (getDayTemplate (i mod 7) ! j))"
  let ?t = "getDayTemplate (i mod 7) ! j"
  from j have "?t \<in> set (getDayTemplate (i mod 7))" by simp
  from catalog_targets [OF this] obtain n where "target ?t = of_int n" "1 \<le> n" by blast
  from adaptClone_target [OF this, of p] obtain n' where
    n': "target (adaptClone p ?t) = of_int n'" "1 \<le> target (adaptClone p ?t)"
    by auto
  have e: "target (exercises (days (createPlan tz s d p) ! i) ! j) =
      max 1 (Math_round (target (adaptClone p ?t) * d))"
    using pos by (simp add: createPlan_exercise [OF i j] createExercise_target)
  {
    assume "1 < d"
    from scale_up [OF n' this]
    show "target (adaptClone p ?t) \<le> target (exercises (days (createPlan tz s d p) ! i) ! j)"
      unfolding e .
  next
    assume "d < 1"
    from scale_down [OF n' this]
    show "target (exercises (days (createPlan tz s d p) ! i) ! j) \<le> target (adaptClone p ?t)"
      unfolding e .
  }
qed


text \<open>
  The theorem at the first day: with all equipment and difficulty 1 the targets are
  30, 40, 24, 20 and 60; without equipment the first exercise is adapted to 15, and its
  target is at least 15 with difficulty 1.1 and at most 15 with difficulty 0.9.
\<close>

theorem createPlan_targets_witness:
  "prefEquipment fullPrefs = Some fullEquipment
   \<and> fullEquipment ''gantere'' = Some True \<and> fullEquipment ''banda'' = Some True
   \<and> map target (exercises (days (createPlan (fixedZone 0) (Date_parse 19723) 1 (Some fullPrefs)) ! 0)) =
       [30, 40, 24, 20, 60]
   \<and> unit (adaptClone (Some defaultPrefs) (getDayTemplate 0 ! 0)) \<noteq> ''rest''
   \<and> target (adaptClone (Some defaultPrefs) (getDayTemplate 0 ! 0)) = 15
   \<and> 15 \<le> target (exercises (days (createPlan (fixedZone 0) (Date_parse 19723) (11 / 10)
                                     (Some defaultPrefs)) ! 0) ! 0)
   \<and> target (exercises (days (createPlan (fixedZone 0) (Date_parse 19723) (9 / 10)
                                (Some defaultPrefs)) ! 0) ! 0) \<le> 15"
proof -
  have f: "prefEquipment fullPrefs = Some fullEquipment"
    "fullEquipment ''gantere'' = Some True" "fullEquipment ''banda'' = Some True"
    by (simp_all add: fullPrefs_def fullEquipment_def)
  have t0: "map target (getDayTemplate 0) = [30, 40, 24, 20, 60]" "getDayTemplate 0 \<noteq> []"
    by (simp_all add: getDayTemplate_def)
  have a: "unit (adaptClone (Some defaultPrefs) (getDayTemplate 0 ! 0)) \<noteq> ''rest''"
    "target (adaptClone (Some defaultPrefs) (getDayTemplate 0 ! 0)) = 15"
    by (simp_all add: adaptClone_def defaultPrefs_def adaptExerciseForEquipment_def
        getDayTemplate_def Math_round_def)
  note up = createPlan_targets
         [of "fixedZone 0" "Date_parse 19723" "11 / 10" "Some defaultPrefs" fullPrefs fullEquipment]
  note down = createPlan_targets
         [of "fixedZone 0" "Date_parse 19723" "9 / 10" "Some defaultPrefs" fullPrefs fullEquipment]
  from up f have "\<forall>i<30. map target (exercises (days (createPlan (fixedZone 0) (Date_parse 19723) 1
      (Some fullPrefs)) ! i)) = map target (getDayTemplate (i mod 7))"
    by blast
  from this [rule_format, of 0]
  have i: "map target (exercises (days (createPlan (fixedZone 0) (Date_parse 19723) 1 (Some fullPrefs)) ! 0)) =
       [30, 40, 24, 20, 60]"
    by (simp add: t0)
  from up have "\<forall>i<30. \<forall>j<length (getDayTemplate (i mod 7)).
          unit (adaptClone (Some defaultPrefs) (getDayTemplate (i mod 7) ! j)) \<noteq> ''rest''
          \<and> 0 < target (adaptClone (Some defaultPrefs) (getDayTemplate (i mod 7) ! j)) \<longrightarrow>
            (1 < (11 / 10 :: real) \<longrightarrow> target (adaptClone (Some defaultPrefs) (getDayTemplate (i mod 7) ! j))
                       \<le> target (exercises (days (createPlan (fixedZone 0) (Date_parse 19723) (11 / 10)
                                     (Some defaultPrefs)) ! i) ! j))"
    by blast
  from this [rule_format, of 0 0]
  have u: "15 \<le> target (exercises (days (createPlan (fixedZone 0) (Date_parse 19723) (11 / 10)
                                     (Some defaultPrefs)) ! 0) ! 0)"
    by (simp add: t0 a)
  from down have "\<forall>i<30. \<forall>j<length (getDayTemplate (i mod 7)).
          unit (adaptClone (Some defaultPrefs) (getDayTemplate (i mod 7) ! j)) \<noteq> ''rest''
          \<and> 0 < target (adaptClone (Some defaultPrefs) (getDayTemplate (i mod 7) ! j)) \<longrightarrow>
            ((9 / 10 :: real) < 1 \<longrightarrow> target (exercises (days (createPlan (fixedZone 0) (Date_parse 19723) (9 / 10)
                                     (Some defaultPrefs)) ! i) ! j)
                       \<le> target (adaptClone (Some defaultPrefs) (getDayTemplate (i mod 7) ! j)))"
    by blast
  from this [rule_format, of 0 0]
  have d: "target (exercises (days (createPlan (fixedZone 0) (Date_parse 19723) (9 / 10)
                                (Some defaultPrefs)) ! 0) ! 0) \<le> 15"
    by (simp add: t0 a)
  from f i a u d show ?thesis
    by blast
qed


section \<open>Adapted targets\<close>







section \<open>The current plan on its end date\<close>

text \<open>
  Claim C7 says that a plan is still current on its end date. The code compares the
  clock, with its time of day, against midnight UTC of the end date: at noon UTC of
  2024-01-30 (day 19752) the sample user's plan, which ends that day, is not current.
\<close>

theorem getCurrentPlan_on_end_date:
  "plans sampleUser \<noteq> [] \<and> endDate (last (plans sampleUser)) = 19752
   \<and> toISODate (19752 * msPerDay + 12 * msPerHour) = 19752
   \<and> getCurrentPlan (19752 * msPerDay + 12 * msPerHour) sampleUser = None"
  by (simp add: getCurrentPlan_def sampleUser_def uniformPlan_def Date_parse_def toISODate_def
      msPerDay_def msPerHour_def)

text \<open>
  In general the current plan is the last plan of the history, while the clock is not
  past midnight UTC of its end date.
\<close>

theorem getCurrentPlan_eq:
  "getCurrentPlan now user =
     (if plans user \<noteq> [] \<and> now \<le> endDate (last (plans user)) * msPerDay
      then Some (last (plans user)) else None)"
  by (simp add: getCurrentPlan_def Date_parse_def Let_def)


section \<open>The successor plan\<close>

lemma successorPlan_fields:
  "startDate (successorPlan tz user plan) = toISODate (addDays tz (Date_parse (endDate plan)) 1)"
  "endDate (successorPlan tz user plan) =
     toISODate (addDays tz (addDays tz (Date_parse (endDate plan)) 1) 29)"
  "difficulty (successorPlan tz user plan) = baselineDifficulty user * determineNextDifficulty plan"
  "length (days (successorPlan tz user plan)) = 30"
  by (simp_all add: successorPlan_def createPlan_def del: upt_Suc)

lemma updateDayCompletion_successor:
  assumes "planIndex < length (plans user)"
    and "length (days (plans user ! planIndex)) = 30"
  obtains plan' where
    "updateDayCompletion tz user planIndex 29 ca fb =
       Inr (user\<lparr>plans := (plans user)[planIndex := plan'] @ [successorPlan tz user plan']\<rparr>)"
    "startDate plan' = startDate (plans user ! planIndex)"
    "endDate plan' = endDate (plans user ! planIndex)"
    "difficulty plan' = difficulty (plans user ! planIndex)"
    "length (days plan') = 30"
proof -
  let ?plan = "plans user ! planIndex"
  from assms have k: "29 < length (days ?plan)" by simp
  from recordDay_facts [OF k, of ca fb] obtain plan' where
    r: "recordDay ?plan 29 ca fb = Inr plan'"
    and f: "length (days plan') = length (days ?plan)" "startDate plan' = startDate ?plan"
      "endDate plan' = endDate ?plan" "difficulty plan' = difficulty ?plan"
    by blast
  from updateDayCompletion_eq [OF assms(1) r, of tz] f(1) assms(2)
  have "updateDayCompletion tz user planIndex 29 ca fb =
       Inr (user\<lparr>plans := (plans user)[planIndex := plan'] @ [successorPlan tz user plan']\<rparr>)"
    by simp
  with f assms(2) show thesis
    by (intro that [of plan']) simp_all
qed

lemma addDays_fixedZone: "addDays (fixedZone c) t n = t + n * msPerDay"
  by (simp add: addDays_def fixedZone_def)

lemma toISODate_days: "toISODate (Date_parse d + n * msPerDay) = d + n"
proof -
  have "Date_parse d + n * msPerDay = (d + n) * msPerDay"
    by (simp add: Date_parse_def distrib_right)
  moreover have "msPerDay \<noteq> 0"
    by (simp add: msPerDay_def)
  ultimately show ?thesis
    by (simp add: toISODate_def)
qed

lemma userEnding_plan:
  "length (plans (userEnding e)) = 1"
  "length (days (plans (userEnding e) ! 0)) = 30"
  "endDate (plans (userEnding e) ! 0) = e"
  by (simp_all add: userEnding_def)

text \<open>
  Claim C2 says that the plan appended by a recording of the last day starts on the day
  after the old plan's end date and ends 29 days after its own start. The code parses
  and prints the dates in UTC and moves them with \<^verbatim>\<open>setDate\<close>, in local time. In
  Europe/Bucharest a plan ending on 2024-03-31 (day 19813) gets a successor that starts on
  2024-03-31, the old end date itself, and a plan ending on 2024-03-09 (day 19791) gets
  a successor from 2024-03-10 (day 19792) to 2024-04-07 (day 19820), which is its start
  plus 28 days.
\<close>

theorem updateDayCompletion_successor_dates_dst:
  "(\<exists>user'. updateDayCompletion bucharest2024 (userEnding 19813) 0 29 [Num 10] [] = Inr user'
      \<and> length (plans user') = 2
      \<and> endDate (plans user' ! 0) = 19813
      \<and> startDate (plans user' ! 1) = 19813
      \<and> endDate (plans user' ! 1) = 19842)
   \<and> (\<exists>user'. updateDayCompletion bucharest2024 (userEnding 19791) 0 29 [Num 10] [] = Inr user'
      \<and> length (plans user') = 2
      \<and> endDate (plans user' ! 0) = 19791
      \<and> startDate (plans user' ! 1) = 19792
      \<and> endDate (plans user' ! 1) = 19820)"
proof -
  have dates:
    "toISODate (addDays bucharest2024 (Date_parse 19813) 1) = 19813"
    "toISODate (addDays bucharest2024 (addDays bucharest2024 (Date_parse 19813) 1) 29) = 19842"
    "toISODate (addDays bucharest2024 (Date_parse 19791) 1) = 19792"
    "toISODate (addDays bucharest2024 (addDays bucharest2024 (Date_parse 19791) 1) 29) = 19820"
    by (simp_all add: toISODate_def addDays_def Date_parse_def bucharest2024_def dstStart2024_def
        dstEnd2024_def msPerDay_def msPerHour_def Let_def)
  have one: "\<exists>user'. updateDayCompletion bucharest2024 (userEnding e) 0 29 [Num 10] [] = Inr user'
      \<and> length (plans user') = 2
      \<and> endDate (plans user' ! 0) = e
      \<and> startDate (plans user' ! 1) = toISODate (addDays bucharest2024 (Date_parse e) 1)
      \<and> endDate (plans user' ! 1) =
          toISODate (addDays bucharest2024 (addDays bucharest2024 (Date_parse e) 1) 29)" for e
  proof -
    have h: "0 < length (plans (userEnding e))" "length (days (plans (userEnding e) ! 0)) = 30"
      by (simp_all add: userEnding_plan)
    from updateDayCompletion_successor [OF h, of bucharest2024 "[Num 10]" "[]"] obtain plan' where
      u: "updateDayCompletion bucharest2024 (userEnding e) 0 29 [Num 10] [] =
         Inr ((userEnding e)\<lparr>plans := (plans (userEnding e))[0 := plan']
                @ [successorPlan bucharest2024 (userEnding e) plan']\<rparr>)"
      and e: "endDate plan' = endDate (plans (userEnding e) ! 0)"
      by blast
    have l: "length ((plans (userEnding e))[0 := plan']) = 1"
      by (simp add: userEnding_plan)
    show ?thesis
      unfolding u using e l
      by (simp add: nth_append successorPlan_fields userEnding_plan)
  qed
  from one [of 19813] one [of 19791] show ?thesis
    unfolding dates by blast
qed


text \<open>
  In a zone whose offset is fixed, a recording of day 29 of a plan of thirty days succeeds
  and appends exactly one plan: it starts on the day after the old plan's end date, ends
  29 days after its start, has thirty days, and its difficulty is the user's baseline
  difficulty times the factor computed from the plan as recorded. The plans of the
  history stay, the recorded one with its dates.
\<close>

theorem updateDayCompletion_successor_fixed_zone:
  assumes "planIndex < length (plans user)"
    and "length (days (plans user ! planIndex)) = 30"
  shows "\<exists>user'. updateDayCompletion (fixedZone c) user planIndex 29 ca fb = Inr user'
    \<and> length (plans user') = length (plans user) + 1
    \<and> (\<forall>j<length (plans user). j \<noteq> planIndex \<longrightarrow> plans user' ! j = plans user ! j)
    \<and> startDate (plans user' ! planIndex) = startDate (plans user ! planIndex)
    \<and> endDate (plans user' ! planIndex) = endDate (plans user ! planIndex)
    \<and> startDate (last (plans user')) = endDate (plans user ! planIndex) + 1
    \<and> endDate (last (plans user')) = startDate (last (plans user')) + 29
    \<and> length (days (last (plans user'))) = 30
    \<and> difficulty (last (plans user')) =
        baselineDifficulty user * determineNextDifficulty (plans user' ! planIndex)"
proof -
  from updateDayCompletion_successor [OF assms, of "fixedZone c" ca fb] obtain plan' where
    u: "updateDayCompletion (fixedZone c) user planIndex 29 ca fb =
       Inr (user\<lparr>plans := (plans user)[planIndex := plan'] @ [successorPlan (fixedZone c) user plan']\<rparr>)"
    and f: "startDate plan' = startDate (plans user ! planIndex)"
      "endDate plan' = endDate (plans user ! planIndex)"
    by blast
  have "addDays (fixedZone c) (Date_parse (endDate plan')) 1 = Date_parse (endDate plan') + 1 * msPerDay"
    and "addDays (fixedZone c) (addDays (fixedZone c) (Date_parse (endDate plan')) 1) 29 =
      Date_parse (endDate plan') + 30 * msPerDay"
    by (simp_all add: addDays_fixedZone)
  then have s: "startDate (successorPlan (fixedZone c) user plan') = endDate plan' + 1"
    and e: "endDate (successorPlan (fixedZone c) user plan') = endDate plan' + 30"
    by (simp_all only: successorPlan_fields toISODate_days)
  show ?thesis
    unfolding u using assms(1) f s e
    by (simp add: nth_append successorPlan_fields)
qed

text \<open>
  The theorem at the sample user in UTC: the plan ending on day 19752 gets a successor
  from day 19753 to day 19782.
\<close>

theorem updateDayCompletion_successor_fixed_zone_witness:
  "0 < length (plans sampleUser) \<and> length (days (plans sampleUser ! 0)) = 30
   \<and> endDate (plans sampleUser ! 0) = 19752
   \<and> (\<exists>user'. updateDayCompletion (fixedZone 0) sampleUser 0 29 [Num 10] [] = Inr user'
        \<and> length (plans user') = 2
        \<and> endDate (plans user' ! 0) = 19752
        \<and> startDate (last (plans user')) = 19753
        \<and> endDate (last (plans user')) = 19782
        \<and> length (days (last (plans user'))) = 30)"
proof -
  have h: "0 < length (plans sampleUser)" "length (days (plans sampleUser ! 0)) = 30"
    by (simp_all add: sampleUser_plan)
  have e: "endDate (plans sampleUser ! 0) = 19752" "length (plans sampleUser) = 1"
    by (simp_all add: sampleUser_def uniformPlan_def)
  from updateDayCompletion_successor_fixed_zone [OF h, of 0 "[Num 10]" "[]"]
  obtain u where "updateDayCompletion (fixedZone 0) sampleUser 0 29 [Num 10] [] = Inr u"
    and "length (plans u) = 2"
    and "endDate (plans u ! 0) = 19752"
    and "startDate (last (plans u)) = 19753"
    and "endDate (last (plans u)) = 19782"
    and "length (days (last (plans u))) = 30"
    unfolding e by auto
  with h e show ?thesis by blast
qed


end
